theory Spec2Isabelle
  imports Main
begin

section \<open>Python values the settings module is built from\<close>

text \<open>
  \<^verbatim>\<open>treeherder/config/settings.py\<close> is a Django settings module: a sequence of
  top-level assignments that runs once, when the module is imported. The settings read
  here are built from integer literals, string literals, one list display, one dict
  display, three calls of \<^verbatim>\<open>datetime.timedelta\<close> and one \<^verbatim>\<open>assert\<close>
  statement. Python's integers are unbounded, so they are \<^typ>\<open>int\<close>; a string is a
  \<^typ>\<open>string\<close>; a statement that can raise returns a sum, \<open>Inl\<close> the exception.
\<close>

datatype error = AssertionError string | OverflowError

subsection \<open>Dict displays\<close>

text \<open>
  A dict display \<^verbatim>\<open>{k1: v1, k2: v2, ...}\<close> is evaluated from left to right, each
  pair stored into the dict built so far: a later pair replaces an earlier one with the
  same key.
\<close>

definition dict_display :: "('k \<times> 'v) list \<Rightarrow> ('k \<rightharpoonup> 'v)" where
  "dict_display kvs = foldl (\<lambda>m (k, v). m(k \<mapsto> v)) Map.empty kvs"

subsection \<open>The assert statement\<close>

text \<open>
  \<^verbatim>\<open>assert cond, msg\<close> raises \<^verbatim>\<open>AssertionError(msg)\<close> when the condition is
  false and does nothing otherwise.
\<close>

definition assert_stmt :: "bool \<Rightarrow> string \<Rightarrow> error + unit" where
  "assert_stmt cond msg = (if cond then Inr () else Inl (AssertionError msg))"

subsection \<open>datetime.timedelta on integer arguments\<close>

text \<open>
  A \<^verbatim>\<open>timedelta\<close> object holds three integers, \<^verbatim>\<open>days\<close>, \<^verbatim>\<open>seconds\<close> and
  \<^verbatim>\<open>microseconds\<close>. Its constructor takes, in this order,
  \<^verbatim>\<open>days, seconds, microseconds, milliseconds, minutes, hours, weeks\<close> (each 0 when
  not given). On integers it runs
  \<^verbatim>\<open>
  days += weeks*7
  seconds += minutes*60 + hours*3600
  microseconds += milliseconds*1000
  d = days
  days, seconds = divmod(seconds, 24*3600)
  d += days
  s = seconds
  seconds, microseconds = divmod(microseconds, 1000000)
  days, seconds = divmod(seconds, 24*3600)
  d += days
  s += seconds
  seconds, us = divmod(microseconds, 1000000)
  s += seconds
  days, s = divmod(s, 24*3600)
  d += days
  if abs(d) > 999999999:
      raise OverflowError(...)
  \<close>
  and stores \<^verbatim>\<open>d, s, us\<close>. Python's \<^verbatim>\<open>divmod\<close> by a positive integer is floor
  division, as \<open>div\<close> and \<open>mod\<close> on \<^typ>\<open>int\<close> are. Only integer arguments are
  modelled: the settings module passes nothing else.
\<close>

record timedelta =
  days :: int
  seconds :: int
  microseconds :: int

definition timedelta_new ::
  "int \<Rightarrow> int \<Rightarrow> int \<Rightarrow> int \<Rightarrow> int \<Rightarrow> int \<Rightarrow> int \<Rightarrow> error + timedelta" where
  "timedelta_new days0 seconds0 microseconds0 milliseconds0 minutes0 hours0 weeks0 =
     (let days1 = days0 + weeks0 * 7;
          seconds1 = seconds0 + minutes0 * 60 + hours0 * 3600;
          microseconds1 = microseconds0 + milliseconds0 * 1000;
          d1 = days1 + seconds1 div (24 * 3600);
          s1 = seconds1 mod (24 * 3600);
          seconds2 = microseconds1 div 1000000;
          microseconds2 = microseconds1 mod 1000000;
          d2 = d1 + seconds2 div (24 * 3600);
          s2 = s1 + seconds2 mod (24 * 3600);
          s3 = s2 + microseconds2 div 1000000;
          us = microseconds2 mod 1000000;
          d = d2 + s3 div (24 * 3600);
          s = s3 mod (24 * 3600)
      in if \<bar>d\<bar> > 999999999 then Inl OverflowError
         else Inr \<lparr>days = d, seconds = s, microseconds = us\<rparr>)"


text \<open>
  \<^verbatim>\<open>_to_microseconds\<close>: the duration as one integer, the numerator of
  \<^verbatim>\<open>total_seconds()\<close>.
\<close>

definition to_microseconds :: "timedelta \<Rightarrow> int" where
  "to_microseconds t = (days t * (24 * 3600) + seconds t) * 1000000 + microseconds t"


section \<open>The settings\<close>

subsection \<open>Celery\<close>

text \<open>
  \<^verbatim>\<open>
  # Periodically publish runtime statistics on statsd (in minutes)
  CELERY_STATS_PUBLICATION_DELAY = 5
  assert 0 < CELERY_STATS_PUBLICATION_DELAY < 60 and 60 % 10 == 0, (
      "Celery task must be a valid cron delay in minutes"
  )
  \<close>
  The condition is a chained comparison and an equation between constants, joined by
  \<^verbatim>\<open>and\<close>. The check is a function of the delay, so that it can be asked about
  other values than the one assigned.
\<close>

definition CELERY_STATS_PUBLICATION_DELAY :: int where
  "CELERY_STATS_PUBLICATION_DELAY = 5"

definition stats_delay_range :: "int \<Rightarrow> bool" where
  "stats_delay_range delay \<longleftrightarrow> 0 < delay \<and> delay < 60"

definition stats_delay_cron :: "int \<Rightarrow> bool" where
  "stats_delay_cron delay \<longleftrightarrow> (60 :: int) mod 10 = 0"

definition stats_delay_assert :: "int \<Rightarrow> error + unit" where
  "stats_delay_assert delay =
     assert_stmt (stats_delay_range delay \<and> stats_delay_cron delay)
       ''Celery task must be a valid cron delay in minutes''"

subsection \<open>Perfherder\<close>

text \<open>
  \<^verbatim>\<open>
  # Default minimum regression threshold for perfherder is 2% (otherwise
  # e.g. the build size tests will alert on every commit)
  PERFHERDER_REGRESSION_THRESHOLD = 2

  # Various settings for treeherder's t-test "sliding window" alert algorithm
  PERFHERDER_ALERTS_MIN_BACK_WINDOW = 12
  PERFHERDER_ALERTS_MAX_BACK_WINDOW = 24
  PERFHERDER_ALERTS_FORE_WINDOW = 12

  # Only generate alerts for data newer than this time in seconds in perfherder
  PERFHERDER_ALERTS_MAX_AGE = timedelta(weeks=2)
  \<close>
\<close>

definition PERFHERDER_REGRESSION_THRESHOLD :: int where
  "PERFHERDER_REGRESSION_THRESHOLD = 2"

definition PERFHERDER_ALERTS_MIN_BACK_WINDOW :: int where
  "PERFHERDER_ALERTS_MIN_BACK_WINDOW = 12"

definition PERFHERDER_ALERTS_MAX_BACK_WINDOW :: int where
  "PERFHERDER_ALERTS_MAX_BACK_WINDOW = 24"

definition PERFHERDER_ALERTS_FORE_WINDOW :: int where
  "PERFHERDER_ALERTS_FORE_WINDOW = 12"


subsection \<open>Sherlock, the performance sheriff robot\<close>

text \<open>
  \<^verbatim>\<open>
  SUPPORTED_PLATFORMS = ["windows", "linux", "osx"]
  MAX_BACKFILLS_PER_PLATFORM = {
      "windows": 200,
      "linux": 200,
      "osx": 20,
  }
  RESET_BACKFILL_LIMITS = timedelta(hours=24)
  \<close>
\<close>

definition SUPPORTED_PLATFORMS :: "string list" where
  "SUPPORTED_PLATFORMS = [''windows'', ''linux'', ''osx'']"

definition MAX_BACKFILLS_PER_PLATFORM :: "string \<rightharpoonup> int" where
  "MAX_BACKFILLS_PER_PLATFORM =
     dict_display [(''windows'', 200), (''linux'', 200), (''osx'', 20)]"

definition RESET_BACKFILL_LIMITS :: "error + timedelta" where
  "RESET_BACKFILL_LIMITS = timedelta_new 0 0 0 0 0 24 0"

section \<open>The consumers of the settings\<close>

subsection \<open>The age cutoff of alert generation\<close>


subsection \<open>The backfill scheduler\<close>














section \<open>Facts about the Python values\<close>

subsection \<open>Dict displays\<close>

lemma dict_display_snoc:
  "dict_display (kvs @ [(k, v)]) = (dict_display kvs)(k \<mapsto> v)"
  by (simp add: dict_display_def)

text \<open>The keys of a dict display are the keys written in it.\<close>

lemma dom_dict_display: "dom (dict_display kvs) = fst ` set kvs"
proof (induction kvs rule: rev_induct)
  case Nil
  show ?case by (simp add: dict_display_def)
next
  case (snoc kv kvs)
  obtain k v where kv: "kv = (k, v)" by (cases kv)
  have "dom (dict_display (kvs @ [kv])) = insert k (dom (dict_display kvs))"
    by (simp only: kv dict_display_snoc dom_fun_upd option.simps if_False)
  also have "\<dots> = fst ` set (kvs @ [kv])"
    by (simp add: kv snoc.IH)
  finally show ?case .
qed

subsection \<open>timedelta\<close>






subsection \<open>The age cutoff\<close>



subsection \<open>The backfill scheduler\<close>









section \<open>The configuration as shipped\<close>

subsection \<open>Backfill limits\<close>

text \<open>
  C1. The per-platform backfill caps are those of the specification's example:
  \<^verbatim>\<open>MAX_BACKFILLS_PER_PLATFORM\<close> maps \<^verbatim>\<open>"windows"\<close> to 200, \<^verbatim>\<open>"linux"\<close> to 200
  and \<^verbatim>\<open>"osx"\<close> to 20, and has no other entry.
\<close>

theorem max_backfills_per_platform_entries:
  "MAX_BACKFILLS_PER_PLATFORM ''windows'' = Some 200 \<and>
   MAX_BACKFILLS_PER_PLATFORM ''linux'' = Some 200 \<and>
   MAX_BACKFILLS_PER_PLATFORM ''osx'' = Some 20 \<and>
   dom MAX_BACKFILLS_PER_PLATFORM = {''windows'', ''linux'', ''osx''}"
  by (simp add: MAX_BACKFILLS_PER_PLATFORM_def dict_display_def insert_commute)

text \<open>
  C8. The keys of \<^verbatim>\<open>MAX_BACKFILLS_PER_PLATFORM\<close> are exactly the members of the
  \<^verbatim>\<open>SUPPORTED_PLATFORMS\<close> list, \<^verbatim>\<open>"windows"\<close>, \<^verbatim>\<open>"linux"\<close> and \<^verbatim>\<open>"osx"\<close>: every
  supported platform has a cap, and no other platform has one.
\<close>

theorem max_backfills_keys_are_supported_platforms:
  "dom MAX_BACKFILLS_PER_PLATFORM = set SUPPORTED_PLATFORMS \<and>
   set SUPPORTED_PLATFORMS = {''windows'', ''linux'', ''osx''}"
  by (simp add: MAX_BACKFILLS_PER_PLATFORM_def SUPPORTED_PLATFORMS_def dom_dict_display
      insert_commute)

text \<open>
  C3. \<^verbatim>\<open>RESET_BACKFILL_LIMITS\<close>, the interval after which the backfill limits are
  reset, is exactly 24 hours: the constructor returns one day, no seconds and no
  microseconds, which is \<open>24 * 3600\<close> seconds.
\<close>

theorem reset_backfill_limits_24_hours:
  "RESET_BACKFILL_LIMITS = Inr \<lparr>days = 1, seconds = 0, microseconds = 0\<rparr> \<and>
   map_sum id to_microseconds RESET_BACKFILL_LIMITS = Inr (24 * 3600 * 1000000)"
  by (simp add: RESET_BACKFILL_LIMITS_def timedelta_new_def to_microseconds_def)

subsection \<open>Perfherder alerts\<close>

text \<open>
  C2. The regression threshold, the least change in percent for which perfherder
  alerts, is 2 in the shipped configuration.
\<close>

theorem regression_threshold_two_percent:
  "PERFHERDER_REGRESSION_THRESHOLD = 2"
  by (simp add: PERFHERDER_REGRESSION_THRESHOLD_def)

text \<open>
  C4. The sliding-window settings are well-formed: the least back window is 12, the
  greatest 24 and the fore window 12, so the least back window is at most the greatest
  (the interval of back-window sizes is not empty) and the fore window is positive.
\<close>

theorem alert_windows_well_formed:
  "PERFHERDER_ALERTS_MIN_BACK_WINDOW = 12 \<and>
   PERFHERDER_ALERTS_MAX_BACK_WINDOW = 24 \<and>
   PERFHERDER_ALERTS_FORE_WINDOW = 12 \<and>
   PERFHERDER_ALERTS_MIN_BACK_WINDOW \<le> PERFHERDER_ALERTS_MAX_BACK_WINDOW \<and>
   {PERFHERDER_ALERTS_MIN_BACK_WINDOW .. PERFHERDER_ALERTS_MAX_BACK_WINDOW} \<noteq> {} \<and>
   0 < PERFHERDER_ALERTS_FORE_WINDOW"
  by (simp add: PERFHERDER_ALERTS_MIN_BACK_WINDOW_def PERFHERDER_ALERTS_MAX_BACK_WINDOW_def
      PERFHERDER_ALERTS_FORE_WINDOW_def)



subsection \<open>The assertion on the statistics publication delay\<close>

text \<open>
  C9. The assertion that guards \<^verbatim>\<open>CELERY_STATS_PUBLICATION_DELAY\<close> succeeds for the
  shipped value 5. Its second conjunct, \<^verbatim>\<open>60 % 10 == 0\<close>, has the same value whatever
  the delay, so the assertion accepts every delay \<open>d\<close> with \<open>0 < d < 60\<close>, among them
  delays that do not divide 60.
\<close>

theorem stats_delay_assert_accepts_range:
  "stats_delay_assert CELERY_STATS_PUBLICATION_DELAY = Inr () \<and>
   (\<forall>d d'. stats_delay_cron d = stats_delay_cron d') \<and>
   (\<forall>d. 0 < d \<and> d < 60 \<longrightarrow> stats_delay_assert d = Inr ()) \<and>
   (\<exists>d. 0 < d \<and> d < 60 \<and> 60 mod d \<noteq> 0 \<and> stats_delay_assert d = Inr ())"
proof (intro conjI allI impI)
  show "stats_delay_assert CELERY_STATS_PUBLICATION_DELAY = Inr ()"
    by (simp add: stats_delay_assert_def assert_stmt_def stats_delay_range_def
        stats_delay_cron_def CELERY_STATS_PUBLICATION_DELAY_def)
next
  fix d d' :: int
  show "stats_delay_cron d = stats_delay_cron d'"
    by (simp add: stats_delay_cron_def)
next
  fix d :: int
  assume "0 < d \<and> d < 60"
  then show "stats_delay_assert d = Inr ()"
    by (simp add: stats_delay_assert_def assert_stmt_def stats_delay_range_def
        stats_delay_cron_def)
next
  have "0 < (7::int) \<and> (7::int) < 60 \<and> (60::int) mod 7 \<noteq> 0 \<and> stats_delay_assert 7 = Inr ()"
    by (simp add: stats_delay_assert_def assert_stmt_def stats_delay_range_def
        stats_delay_cron_def)
  then show "\<exists>d. 0 < d \<and> d < 60 \<and> 60 mod d \<noteq> 0 \<and> stats_delay_assert d = Inr ()"
    by blast
qed

text \<open>
  A delay of 7 minutes is in range, leaves the remainder 4 in 60, and passes.
\<close>

theorem stats_delay_assert_accepts_range_witness:
  "0 < (7::int) \<and> (7::int) < 60 \<and> (60::int) mod 7 = 4 \<and> stats_delay_assert 7 = Inr ()"
proof -
  have range: "0 < (7::int) \<and> (7::int) < 60" by simp
  have "\<forall>d. 0 < d \<and> d < 60 \<longrightarrow> stats_delay_assert d = Inr ()"
    using stats_delay_assert_accepts_range by blast
  with range have "stats_delay_assert 7 = Inr ()" by blast
  with range show ?thesis by simp
qed

subsection \<open>The backfill scheduler and its caps\<close>




end
